theory Spec2Isabelle
  imports Main "HOL-Library.Word"
begin

section \<open>Data model\<close>

text \<open>
  The registration authority of \<^verbatim>\<open>gigvault/ra\<close>: the enrollment record of
  \<^verbatim>\<open>internal/models\<close>, the PostgreSQL-backed \<^verbatim>\<open>EnrollmentStorage\<close>, the
  \<^verbatim>\<open>RAService\<close> operations and the \<^verbatim>\<open>CAClient\<close>. A \<^verbatim>\<open>time.Time\<close> is an
  instant counted in clock units; a \<^verbatim>\<open>*string\<close> is a \<open>string option\<close>
  (\<open>None\<close> is the nil pointer, NULL in the table).
\<close>

type_synonym time = nat

record Enrollment =
  ID :: string
  CommonName :: string
  Organization :: string
  Email :: string
  CSR :: string
  Status :: string
  ApprovedBy :: "string option"
  RejectedBy :: "string option"
  RejectReason :: "string option"
  CreatedAt :: time
  UpdatedAt :: time

text \<open>
  Go errors. The code builds every error with \<^verbatim>\<open>fmt.Errorf\<close>, either from a plain
  message or from a message and a wrapped cause (\<^verbatim>\<open>"...: %w"\<close>). The causes at the
  bottom of a chain come from the libraries: the driver's \<^verbatim>\<open>pgx.ErrNoRows\<close>, any
  other error of the database driver, a CSR parse error, an RPC error.
\<close>

datatype error =
    ErrNoRows
  | ErrDriver string
  | ErrParse string
  | ErrRPC string
  | Errorf string "error option"

fun Error :: "error \<Rightarrow> string" where
  "Error ErrNoRows = ''no rows in result set''"
| "Error (ErrDriver m) = m"
| "Error (ErrParse m) = m"
| "Error (ErrRPC m) = m"
| "Error (Errorf m None) = m"
| "Error (Errorf m (Some e)) = m @ '': '' @ Error e"

text \<open>The part of a parsed signing request the service reads: \<^verbatim>\<open>csr.Subject.CommonName\<close>.\<close>

record CertificateRequest =
  Subject_CommonName :: string

text \<open>The messages of the CA service's \<^verbatim>\<open>SignCSR\<close> call.\<close>

record SignCSRRequest =
  CsrPem :: string
  ValidityDays :: "32 word"
  Profile :: string

record SignCSRResponse =
  CertificatePem :: string
  SerialNumber :: string

datatype field = zap_String string string | zap_Int string int

type_synonym log_entry = "string \<times> field list"

datatype query =
    InsertRow
  | SelectByID string
  | SelectAll
  | SelectByStatus string
  | UpdateByID string

text \<open>
  Everything outside the process that the code reads or writes:
  \<^item> \<open>table\<close>: the rows of \<^verbatim>\<open>enrollments\<close>, in insertion order, and \<open>id_seq\<close>, the
    sequence behind the \<^verbatim>\<open>SERIAL\<close> column \<^verbatim>\<open>id\<close>;
  \<^item> \<open>faults\<close>: what the database answers to the coming statements, one entry per
    statement: \<open>None\<close> when the statement is executed, \<open>Some e\<close> when the driver reports
    the error \<open>e\<close> instead (connection lost, timeout, constraint violated); an exhausted
    list means no further failure;
  \<^item> \<open>queries\<close>: the statements sent so far;
  \<^item> \<open>ca_replies\<close>: what the CA service answers to the coming \<^verbatim>\<open>SignCSR\<close> calls, and
    \<open>ca_requests\<close>, the requests sent so far;
  \<^item> \<open>logs\<close> and \<open>ca_logs\<close>: the entries written by the service's and the client's
    loggers.
\<close>

record world =
  table :: "Enrollment list"
  id_seq :: nat
  faults :: "error option list"
  queries :: "query list"
  logs :: "log_entry list"
  ca_replies :: "(error + SignCSRResponse) list"
  ca_requests :: "SignCSRRequest list"
  ca_logs :: "log_entry list"

definition Info :: "world \<Rightarrow> string \<Rightarrow> field list \<Rightarrow> world" where
  "Info w msg kvs = w\<lparr>logs := logs w @ [(msg, kvs)]\<rparr>"

definition ca_Info :: "world \<Rightarrow> string \<Rightarrow> field list \<Rightarrow> world" where
  "ca_Info w msg kvs = w\<lparr>ca_logs := ca_logs w @ [(msg, kvs)]\<rparr>"

text \<open>Sending one statement: it is recorded, and the next entry of \<open>faults\<close> decides it.\<close>

definition db_call :: "world \<Rightarrow> query \<Rightarrow> error option \<times> world" where
  "db_call w q =
     (case faults w of
        [] \<Rightarrow> (None, w\<lparr>queries := queries w @ [q]\<rparr>)
      | f # fs \<Rightarrow> (f, w\<lparr>faults := fs, queries := queries w @ [q]\<rparr>))"

text \<open>The answer the next statement will get, and: the next \<open>n\<close> statements will be executed.\<close>

definition next_fault :: "world \<Rightarrow> error option" where
  "next_fault w = (case faults w of [] \<Rightarrow> None | f # fs \<Rightarrow> f)"

definition db_available :: "nat \<Rightarrow> world \<Rightarrow> bool" where
  "db_available n w = list_all (\<lambda>f. f = None) (take n (faults w))"

text \<open>The decimal text of a sequence value, as the driver scans an integer into a string.\<close>

function string_of_nat :: "nat \<Rightarrow> string" where
  "string_of_nat n =
     (if n < 10 then [''0123456789'' ! n]
      else string_of_nat (n div 10) @ [''0123456789'' ! (n mod 10)])"
  by pat_completeness auto
termination
  by (relation "measure id") auto

declare string_of_nat.simps [simp del]

section \<open>EnrollmentStorage\<close>

text \<open>
  \<^verbatim>\<open>INSERT INTO enrollments (common_name, organization, email, csr, status, created_at,
  updated_at) VALUES (...) RETURNING id\<close>: the three decision columns are not listed and
  take NULL; the new id is scanned into the struct.
\<close>

definition Storage_Create :: "world \<Rightarrow> Enrollment \<Rightarrow> (error + Enrollment) \<times> world" where
  "Storage_Create w enrollment =
     (case db_call w InsertRow of
        (Some err, w1) \<Rightarrow> (Inl (Errorf ''failed to create enrollment'' (Some err)), w1)
      | (None, w1) \<Rightarrow>
          let new_id = string_of_nat (id_seq w1);
              row = \<lparr>ID = new_id,
                     CommonName = CommonName enrollment,
                     Organization = Organization enrollment,
                     Email = Email enrollment,
                     CSR = CSR enrollment,
                     Status = Status enrollment,
                     ApprovedBy = None,
                     RejectedBy = None,
                     RejectReason = None,
                     CreatedAt = CreatedAt enrollment,
                     UpdatedAt = UpdatedAt enrollment\<rparr>
          in (Inr (enrollment\<lparr>ID := new_id\<rparr>),
              w1\<lparr>table := table w1 @ [row], id_seq := Suc (id_seq w1)\<rparr>))"

text \<open>\<^verbatim>\<open>SELECT ... FROM enrollments WHERE id = $1\<close>, read with \<^verbatim>\<open>QueryRow(...).Scan\<close>.\<close>

definition Storage_GetByID :: "world \<Rightarrow> string \<Rightarrow> (error + Enrollment) \<times> world" where
  "Storage_GetByID w eid =
     (case db_call w (SelectByID eid) of
        (Some err, w1) \<Rightarrow> (Inl (Errorf ''failed to get enrollment'' (Some err)), w1)
      | (None, w1) \<Rightarrow>
          (case find (\<lambda>r. ID r = eid) (table w1) of
             None \<Rightarrow> (Inl (Errorf ''failed to get enrollment'' (Some ErrNoRows)), w1)
           | Some r \<Rightarrow> (Inr r, w1)))"

text \<open>
  The loop \<^verbatim>\<open>for rows.Next() { ...; enrollments = append(enrollments, &enrollment) }\<close>.
\<close>

fun scan_rows :: "Enrollment list \<Rightarrow> Enrollment list \<Rightarrow> Enrollment list" where
  "scan_rows enrollments [] = enrollments"
| "scan_rows enrollments (r # rows) = scan_rows (enrollments @ [r]) rows"

text \<open>
  \<^verbatim>\<open>ORDER BY created_at DESC LIMIT 100\<close>. SQL leaves the order of rows with equal
  \<^verbatim>\<open>created_at\<close> open; here the later insertion comes first.
\<close>

definition order_by_created_at_desc :: "Enrollment list \<Rightarrow> Enrollment list" where
  "order_by_created_at_desc rs = rev (sort_key CreatedAt rs)"

definition Storage_List :: "world \<Rightarrow> string \<Rightarrow> (error + Enrollment list) \<times> world" where
  "Storage_List w status =
     (let q = (if status \<noteq> [] then SelectByStatus status else SelectAll);
          selected = (\<lambda>t. if status \<noteq> [] then filter (\<lambda>r. Status r = status) t else t)
      in case db_call w q of
           (Some err, w1) \<Rightarrow> (Inl (Errorf ''failed to list enrollments'' (Some err)), w1)
         | (None, w1) \<Rightarrow>
             (Inr (scan_rows [] (take 100 (order_by_created_at_desc (selected (table w1))))),
              w1))"

text \<open>
  \<^verbatim>\<open>UPDATE enrollments SET status = $1, approved_by = $2, rejected_by = $3,
  reject_reason = $4, updated_at = $5 WHERE id = $6\<close>, sent with \<^verbatim>\<open>Exec\<close>: the number of
  rows affected is not read, and no row matching is not an error.
\<close>

definition update_row :: "Enrollment \<Rightarrow> Enrollment \<Rightarrow> Enrollment" where
  "update_row enrollment r =
     (if ID r = ID enrollment
      then r\<lparr>Status := Status enrollment,
             ApprovedBy := ApprovedBy enrollment,
             RejectedBy := RejectedBy enrollment,
             RejectReason := RejectReason enrollment,
             UpdatedAt := UpdatedAt enrollment\<rparr>
      else r)"

definition Storage_Update :: "world \<Rightarrow> Enrollment \<Rightarrow> error option \<times> world" where
  "Storage_Update w enrollment =
     (case db_call w (UpdateByID (ID enrollment)) of
        (Some err, w1) \<Rightarrow> (Some (Errorf ''failed to update enrollment'' (Some err)), w1)
      | (None, w1) \<Rightarrow> (None, w1\<lparr>table := map (update_row enrollment) (table w1)\<rparr>))"

section \<open>RAService\<close>

text \<open>
  \<^verbatim>\<open>crypto.ParseCSR\<close> belongs to the library \<^verbatim>\<open>gigvault/shared\<close>; the service takes
  it as the parameter \<open>ParseCSR\<close>. The two readings of \<^verbatim>\<open>time.Now()\<close> are the
  parameters \<open>t1\<close> and \<open>t2\<close>.
\<close>

definition CreateEnrollment ::
  "(string \<Rightarrow> error + CertificateRequest) \<Rightarrow> world \<Rightarrow> time \<Rightarrow> time \<Rightarrow>
   string \<Rightarrow> string \<Rightarrow> string \<Rightarrow> string \<Rightarrow> (error + Enrollment) \<times> world" where
  "CreateEnrollment ParseCSR w t1 t2 cn org email csrPEM =
     (case ParseCSR csrPEM of
        Inl err \<Rightarrow> (Inl (Errorf ''invalid CSR'' (Some err)), w)
      | Inr csr \<Rightarrow>
          let w1 = Info w ''Creating enrollment''
                     [zap_String ''cn'' cn, zap_String ''org'' org,
                      zap_String ''csr_subject'' (Subject_CommonName csr)]
          in if Subject_CommonName csr \<noteq> cn
             then (Inl (Errorf ''CSR common name does not match provided common name'' None), w1)
             else
               let enrollment = \<lparr>ID = [],
                                 CommonName = cn,
                                 Organization = org,
                                 Email = email,
                                 CSR = csrPEM,
                                 Status = ''pending'',
                                 ApprovedBy = None,
                                 RejectedBy = None,
                                 RejectReason = None,
                                 CreatedAt = t1,
                                 UpdatedAt = t2\<rparr>
               in (case Storage_Create w1 enrollment of
                     (Inl err, w2) \<Rightarrow> (Inl (Errorf ''failed to create enrollment'' (Some err)), w2)
                   | (Inr created, w2) \<Rightarrow> (Inr created, w2)))"

definition ListEnrollments :: "world \<Rightarrow> string \<Rightarrow> (error + Enrollment list) \<times> world" where
  "ListEnrollments w status = Storage_List w status"

definition GetEnrollment :: "world \<Rightarrow> string \<Rightarrow> (error + Enrollment) \<times> world" where
  "GetEnrollment w eid = Storage_GetByID w eid"

definition ApproveEnrollment ::
  "world \<Rightarrow> time \<Rightarrow> string \<Rightarrow> string \<Rightarrow> error option \<times> world" where
  "ApproveEnrollment w now eid approvedBy =
     (case Storage_GetByID w eid of
        (Inl err, w1) \<Rightarrow> (Some (Errorf ''enrollment not found'' (Some err)), w1)
      | (Inr enrollment, w1) \<Rightarrow>
          if Status enrollment \<noteq> ''pending''
          then (Some (Errorf ''enrollment is not in pending status'' None), w1)
          else
            let w2 = Info w1 ''Approving enrollment''
                       [zap_String ''id'' eid, zap_String ''approved_by'' approvedBy];
                approved = enrollment\<lparr>Status := ''approved'',
                                      ApprovedBy := Some approvedBy,
                                      UpdatedAt := now\<rparr>
            in (case Storage_Update w2 approved of
                  (Some err, w3) \<Rightarrow>
                    (Some (Errorf ''failed to update enrollment'' (Some err)), w3)
                | (None, w3) \<Rightarrow> (None, Info w3 ''Enrollment queued for CA signing'' [])))"

definition RejectEnrollment ::
  "world \<Rightarrow> time \<Rightarrow> string \<Rightarrow> string \<Rightarrow> string \<Rightarrow> error option \<times> world" where
  "RejectEnrollment w now eid rejectedBy reason =
     (case Storage_GetByID w eid of
        (Inl err, w1) \<Rightarrow> (Some (Errorf ''enrollment not found'' (Some err)), w1)
      | (Inr enrollment, w1) \<Rightarrow>
          if Status enrollment \<noteq> ''pending''
          then (Some (Errorf ''enrollment is not in pending status'' None), w1)
          else
            let w2 = Info w1 ''Rejecting enrollment''
                       [zap_String ''id'' eid, zap_String ''rejected_by'' rejectedBy,
                        zap_String ''reason'' reason];
                rejected = enrollment\<lparr>Status := ''rejected'',
                                      RejectedBy := Some rejectedBy,
                                      RejectReason := Some reason,
                                      UpdatedAt := now\<rparr>
            in (case Storage_Update w2 rejected of
                  (Some err, w3) \<Rightarrow>
                    (Some (Errorf ''failed to update enrollment'' (Some err)), w3)
                | (None, w3) \<Rightarrow> (None, w3)))"

section \<open>CAClient\<close>

text \<open>
  \<^verbatim>\<open>SignCSR(ctx, csrPEM, validityDays)\<close>: Go's \<^verbatim>\<open>int\<close> is 64 bits wide and
  \<^verbatim>\<open>int32(validityDays)\<close> keeps its low 32 bits. A call with no reply left fails as
  the RPC does when the service is unreachable. The serial number of the reply is
  logged; the certificate is the only value returned.
\<close>

definition SignCSR :: "world \<Rightarrow> string \<Rightarrow> 64 word \<Rightarrow> (error + string) \<times> world" where
  "SignCSR w csrPEM validityDays =
     (let w1 = ca_Info w ''Signing CSR via CA service''
                 [zap_Int ''validity_days'' (sint validityDays)];
          req = \<lparr>CsrPem = csrPEM, ValidityDays = ucast validityDays, Profile = ''server''\<rparr>;
          w2 = w1\<lparr>ca_requests := ca_requests w1 @ [req]\<rparr>
      in case ca_replies w2 of
           [] \<Rightarrow> (Inl (Errorf ''failed to sign CSR'' (Some (ErrRPC ''unavailable''))), w2)
         | Inl err # rest \<Rightarrow>
             (Inl (Errorf ''failed to sign CSR'' (Some err)), w2\<lparr>ca_replies := rest\<rparr>)
         | Inr resp # rest \<Rightarrow>
             (Inr (CertificatePem resp),
              ca_Info (w2\<lparr>ca_replies := rest\<rparr>) ''CSR signed successfully''
                [zap_String ''serial'' (SerialNumber resp)]))"


section \<open>The operations as a transition system\<close>

text \<open>
  One value per exported operation and call; \<open>step\<close> is the effect of the call on the
  world, \<open>run\<close> a sequence of calls made one after the other.
\<close>

datatype op =
    OpCreate time time string string string string
  | OpList string
  | OpGet string
  | OpApprove time string string
  | OpReject time string string string
  | OpSignCSR string "64 word"

fun step :: "(string \<Rightarrow> error + CertificateRequest) \<Rightarrow> world \<Rightarrow> op \<Rightarrow> world" where
  "step ParseCSR w (OpCreate t1 t2 cn org email csrPEM) =
     snd (CreateEnrollment ParseCSR w t1 t2 cn org email csrPEM)"
| "step ParseCSR w (OpList status) = snd (ListEnrollments w status)"
| "step ParseCSR w (OpGet eid) = snd (GetEnrollment w eid)"
| "step ParseCSR w (OpApprove now eid approvedBy) = snd (ApproveEnrollment w now eid approvedBy)"
| "step ParseCSR w (OpReject now eid rejectedBy reason) =
     snd (RejectEnrollment w now eid rejectedBy reason)"
| "step ParseCSR w (OpSignCSR csrPEM validityDays) = snd (SignCSR w csrPEM validityDays)"

definition run :: "(string \<Rightarrow> error + CertificateRequest) \<Rightarrow> world \<Rightarrow> op list \<Rightarrow> world" where
  "run ParseCSR w ops = foldl (step ParseCSR) w ops"

text \<open>The row a read by id returns.\<close>

definition row_of :: "world \<Rightarrow> string \<Rightarrow> Enrollment option" where
  "row_of w eid = find (\<lambda>r. ID r = eid) (table w)"

section \<open>Two callers on one store\<close>

text \<open>
  \<^verbatim>\<open>ApproveEnrollment\<close> and \<^verbatim>\<open>RejectEnrollment\<close> talk to the database twice: the read
  \<^verbatim>\<open>GetByID\<close> with the status check, then the write \<^verbatim>\<open>Update\<close>. Nothing in the code
  holds a lock or a transaction between the two statements, so the statements of two
  callers may interleave. A \<open>task\<close> is one call in progress: not started, holding the
  modified struct between its read and its write, or returned.
\<close>

datatype request =
    Approve time string string
  | Reject time string string string

fun request_id :: "request \<Rightarrow> string" where
  "request_id (Approve now eid approvedBy) = eid"
| "request_id (Reject now eid rejectedBy reason) = eid"

datatype task =
    Waiting request
  | Loaded request Enrollment
  | Finished "error option"

fun task_step :: "world \<Rightarrow> task \<Rightarrow> task \<times> world" where
  "task_step w (Waiting (Approve now eid approvedBy)) =
     (case Storage_GetByID w eid of
        (Inl err, w1) \<Rightarrow> (Finished (Some (Errorf ''enrollment not found'' (Some err))), w1)
      | (Inr enrollment, w1) \<Rightarrow>
          if Status enrollment \<noteq> ''pending''
          then (Finished (Some (Errorf ''enrollment is not in pending status'' None)), w1)
          else (Loaded (Approve now eid approvedBy)
                  (enrollment\<lparr>Status := ''approved'',
                              ApprovedBy := Some approvedBy,
                              UpdatedAt := now\<rparr>),
                Info w1 ''Approving enrollment''
                  [zap_String ''id'' eid, zap_String ''approved_by'' approvedBy]))"
| "task_step w (Waiting (Reject now eid rejectedBy reason)) =
     (case Storage_GetByID w eid of
        (Inl err, w1) \<Rightarrow> (Finished (Some (Errorf ''enrollment not found'' (Some err))), w1)
      | (Inr enrollment, w1) \<Rightarrow>
          if Status enrollment \<noteq> ''pending''
          then (Finished (Some (Errorf ''enrollment is not in pending status'' None)), w1)
          else (Loaded (Reject now eid rejectedBy reason)
                  (enrollment\<lparr>Status := ''rejected'',
                              RejectedBy := Some rejectedBy,
                              RejectReason := Some reason,
                              UpdatedAt := now\<rparr>),
                Info w1 ''Rejecting enrollment''
                  [zap_String ''id'' eid, zap_String ''rejected_by'' rejectedBy,
                   zap_String ''reason'' reason]))"
| "task_step w (Loaded (Approve now eid approvedBy) enrollment) =
     (case Storage_Update w enrollment of
        (Some err, w3) \<Rightarrow> (Finished (Some (Errorf ''failed to update enrollment'' (Some err))), w3)
      | (None, w3) \<Rightarrow> (Finished None, Info w3 ''Enrollment queued for CA signing'' []))"
| "task_step w (Loaded (Reject now eid rejectedBy reason) enrollment) =
     (case Storage_Update w enrollment of
        (Some err, w3) \<Rightarrow> (Finished (Some (Errorf ''failed to update enrollment'' (Some err))), w3)
      | (None, w3) \<Rightarrow> (Finished None, w3))"
| "task_step w (Finished result) = (Finished result, w)"

text \<open>The call a request stands for, run without interruption.\<close>

fun perform :: "world \<Rightarrow> request \<Rightarrow> error option \<times> world" where
  "perform w (Approve now eid approvedBy) = ApproveEnrollment w now eid approvedBy"
| "perform w (Reject now eid rejectedBy reason) = RejectEnrollment w now eid rejectedBy reason"

text \<open>A schedule says whose statement comes next: \<open>True\<close> the first caller, \<open>False\<close> the second.\<close>

fun interleave :: "world \<Rightarrow> task \<Rightarrow> task \<Rightarrow> bool list \<Rightarrow> world \<times> task \<times> task" where
  "interleave w a b [] = (w, a, b)"
| "interleave w a b (True # schedule) =
     (case task_step w a of (a', w') \<Rightarrow> interleave w' a' b schedule)"
| "interleave w a b (False # schedule) =
     (case task_step w b of (b', w') \<Rightarrow> interleave w' a b' schedule)"

section \<open>Properties of records\<close>

text \<open>
  A decision field is set when its pointer is not nil. It is non-empty when, moreover,
  the string it points to is not the empty string.
\<close>

definition is_set :: "string option \<Rightarrow> bool" where
  "is_set x = (case x of None \<Rightarrow> False | Some s \<Rightarrow> True)"

definition non_empty :: "string option \<Rightarrow> bool" where
  "non_empty x = (case x of None \<Rightarrow> False | Some s \<Rightarrow> s \<noteq> [])"

definition approved_states :: "string set" where
  "approved_states = {''approved'', ''issued'', ''issuance_failed''}"

definition decision_fields ::
  "(string option \<Rightarrow> bool) \<Rightarrow> Enrollment \<Rightarrow> bool" where
  "decision_fields present r =
     ((present (ApprovedBy r) = (Status r \<in> approved_states)) \<and>
      (present (RejectedBy r) = (Status r = ''rejected'')) \<and>
      (present (RejectReason r) = (Status r = ''rejected'')) \<and>
      \<not> (present (ApprovedBy r) \<and> present (RejectedBy r)))"

definition written_statuses :: "string set" where
  "written_statuses = {''pending'', ''approved'', ''rejected''}"

text \<open>The error that \<^verbatim>\<open>ApproveEnrollment\<close> and \<^verbatim>\<open>RejectEnrollment\<close> call "enrollment not found".\<close>

definition is_not_found :: "error option \<Rightarrow> bool" where
  "is_not_found result =
     (case result of
        Some (Errorf m c) \<Rightarrow> m = ''enrollment not found''
      | _ \<Rightarrow> False)"


text \<open>A property of rows that the three writes keep.\<close>

definition kept_by_writes :: "(Enrollment \<Rightarrow> bool) \<Rightarrow> bool" where
  "kept_by_writes Q =
     ((\<forall>i cn org email csrPEM t1 t2.
         Q \<lparr>ID = i, CommonName = cn, Organization = org, Email = email, CSR = csrPEM,
            Status = ''pending'', ApprovedBy = None, RejectedBy = None,
            RejectReason = None, CreatedAt = t1, UpdatedAt = t2\<rparr>) \<and>
      (\<forall>p r a t. Q p \<and> Q r \<and> Status p = ''pending'' \<longrightarrow>
         Q (update_row (p\<lparr>Status := ''approved'', ApprovedBy := Some a, UpdatedAt := t\<rparr>) r)) \<and>
      (\<forall>p r a b t. Q p \<and> Q r \<and> Status p = ''pending'' \<longrightarrow>
         Q (update_row (p\<lparr>Status := ''rejected'', RejectedBy := Some a, RejectReason := Some b,
                          UpdatedAt := t\<rparr>) r)))"

section \<open>Sample inputs\<close>

text \<open>
  A stand-in for the library's parser, for evaluating the operations on concrete inputs:
  the text \<^verbatim>\<open>CN=name\<close> is read as a well-formed request with subject common name
  \<^verbatim>\<open>name\<close>, any other text is malformed.
\<close>

definition sample_ParseCSR :: "string \<Rightarrow> error + CertificateRequest" where
  "sample_ParseCSR pem =
     (if take 3 pem = ''CN='' then Inr \<lparr>Subject_CommonName = drop 3 pem\<rparr>
      else Inl (ErrParse ''malformed CSR''))"

definition empty_world :: world where
  "empty_world =
     \<lparr>table = [], id_seq = 1, faults = [], queries = [], logs = [],
      ca_replies = [], ca_requests = [], ca_logs = []\<rparr>"

definition sample_row :: "string \<Rightarrow> string \<Rightarrow> Enrollment" where
  "sample_row eid status =
     \<lparr>ID = eid, CommonName = ''svc.internal'', Organization = ''Ops'',
      Email = ''ops@example.com'', CSR = ''CN=svc.internal'', Status = status,
      ApprovedBy = None, RejectedBy = None, RejectReason = None,
      CreatedAt = 10, UpdatedAt = 10\<rparr>"

text \<open>One pending enrollment, id 1, on a store that answers every statement.\<close>

definition pending_world :: world where
  "pending_world = empty_world\<lparr>table := [sample_row ''1'' ''pending''], id_seq := 2\<rparr>"

text \<open>The same store, about to lose its connection on the next statement.\<close>

definition failing_world :: world where
  "failing_world = pending_world\<lparr>faults := [Some (ErrDriver ''connection refused'')]\<rparr>"

text \<open>
  One approved enrollment, id 1, and a CA that fails the first \<^verbatim>\<open>SignCSR\<close> call and
  answers the second.
\<close>

definition approved_world :: world where
  "approved_world =
     empty_world
       \<lparr>table := [(sample_row ''1'' ''approved'')\<lparr>ApprovedBy := Some ''alice''\<rparr>],
        id_seq := 2,
        ca_replies := [Inl (ErrRPC ''deadline exceeded''),
                       Inr \<lparr>CertificatePem = ''CERTIFICATE'', SerialNumber = ''0A''\<rparr>]\<rparr>"


text \<open>A session of calls on an empty store.\<close>

definition sample_session :: "op list" where
  "sample_session =
     [OpCreate 30 31 ''svc.internal'' ''Ops'' ''ops@example.com'' ''CN=svc.internal'',
      OpCreate 32 33 ''api.example.com'' ''Ops'' ''ops@example.com'' ''CN=api.example.com'',
      OpCreate 34 35 ''api.example.com'' ''Ops'' ''ops@example.com'' ''CN=evil.example.com'',
      OpCreate 36 37 ''db.internal'' ''Ops'' ''ops@example.com'' ''CN=db.internal'',
      OpApprove 40 ''1'' ''alice'',
      OpReject 41 ''2'' ''bob'' ''duplicate request'',
      OpApprove 42 ''2'' ''alice'',
      OpSignCSR ''CN=svc.internal'' 365,
      OpList ''pending'',
      OpGet ''3'']"

section \<open>The database calls, one statement at a time\<close>

lemma db_call_eq: "db_call w q = (next_fault w, snd (db_call w q))"
  by (simp add: db_call_def next_fault_def split: list.splits)

lemma db_call_snd [simp]:
  "table (snd (db_call w q)) = table w"
  "id_seq (snd (db_call w q)) = id_seq w"
  "logs (snd (db_call w q)) = logs w"
  "ca_replies (snd (db_call w q)) = ca_replies w"
  "ca_requests (snd (db_call w q)) = ca_requests w"
  "ca_logs (snd (db_call w q)) = ca_logs w"
  "faults (snd (db_call w q)) = tl (faults w)"
  "queries (snd (db_call w q)) = queries w @ [q]"
  by (simp_all add: db_call_def split: list.splits)

lemma db_available_Suc:
  "db_available (Suc n) w = (next_fault w = None \<and> db_available n (snd (db_call w q)))"
  by (cases "faults w") (simp_all add: db_available_def next_fault_def)

lemma db_available_Info [simp]: "db_available n (Info w m kvs) = db_available n w"
  by (simp add: db_available_def Info_def)

lemma next_fault_Info [simp]: "next_fault (Info w m kvs) = next_fault w"
  by (simp add: next_fault_def Info_def)

lemma Info_fields [simp]:
  "table (Info w m kvs) = table w"
  "id_seq (Info w m kvs) = id_seq w"
  "faults (Info w m kvs) = faults w"
  "queries (Info w m kvs) = queries w"
  "ca_replies (Info w m kvs) = ca_replies w"
  "ca_requests (Info w m kvs) = ca_requests w"
  by (simp_all add: Info_def)

lemma row_of_Info [simp]: "row_of (Info w m kvs) eid = row_of w eid"
  by (simp add: row_of_def)

lemma row_of_db_call [simp]: "row_of (snd (db_call w q)) eid = row_of w eid"
  by (simp add: row_of_def)

lemma GetByID_eq:
  "Storage_GetByID w eid =
     ((case next_fault w of
         Some err \<Rightarrow> Inl (Errorf ''failed to get enrollment'' (Some err))
       | None \<Rightarrow>
           (case row_of w eid of
              None \<Rightarrow> Inl (Errorf ''failed to get enrollment'' (Some ErrNoRows))
            | Some r \<Rightarrow> Inr r)),
      snd (db_call w (SelectByID eid)))"
  unfolding Storage_GetByID_def
  by (subst db_call_eq) (simp add: row_of_def split: option.splits)

lemma Update_eq:
  "Storage_Update w e =
     (case next_fault w of
        Some err \<Rightarrow>
          (Some (Errorf ''failed to update enrollment'' (Some err)),
           snd (db_call w (UpdateByID (ID e))))
      | None \<Rightarrow>
          (None, (snd (db_call w (UpdateByID (ID e))))\<lparr>table := map (update_row e) (table w)\<rparr>))"
  unfolding Storage_Update_def
  by (subst db_call_eq) (simp split: option.splits)

lemma Create_eq:
  "Storage_Create w e =
     (case next_fault w of
        Some err \<Rightarrow>
          (Inl (Errorf ''failed to create enrollment'' (Some err)), snd (db_call w InsertRow))
      | None \<Rightarrow>
          (Inr (e\<lparr>ID := string_of_nat (id_seq w)\<rparr>),
           (snd (db_call w InsertRow))
             \<lparr>table := table w @
                [\<lparr>ID = string_of_nat (id_seq w), CommonName = CommonName e,
                  Organization = Organization e, Email = Email e, CSR = CSR e,
                  Status = Status e, ApprovedBy = None, RejectedBy = None,
                  RejectReason = None, CreatedAt = CreatedAt e, UpdatedAt = UpdatedAt e\<rparr>],
              id_seq := Suc (id_seq w)\<rparr>))"
  unfolding Storage_Create_def
  by (subst db_call_eq) (simp split: option.splits add: Let_def)

lemma ID_update_row [simp]: "ID (update_row e r) = ID r"
  by (simp add: update_row_def)

lemma find_map_update_row:
  "find (\<lambda>r. ID r = i) (map (update_row e) xs) = map_option (update_row e) (find (\<lambda>r. ID r = i) xs)"
  by (induction xs) simp_all

lemma row_of_ID: "row_of w eid = Some r \<Longrightarrow> ID r = eid"
  by (auto simp: row_of_def find_Some_iff)

lemma row_of_mem: "row_of w eid = Some r \<Longrightarrow> r \<in> set (table w)"
  by (auto simp: row_of_def find_Some_iff)

lemma Approve_eq:
  "ApproveEnrollment w now eid approvedBy =
     (case next_fault w of
        Some err \<Rightarrow>
          (Some (Errorf ''enrollment not found''
                   (Some (Errorf ''failed to get enrollment'' (Some err)))),
           snd (db_call w (SelectByID eid)))
      | None \<Rightarrow>
          (case row_of w eid of
             None \<Rightarrow>
               (Some (Errorf ''enrollment not found''
                        (Some (Errorf ''failed to get enrollment'' (Some ErrNoRows)))),
                snd (db_call w (SelectByID eid)))
           | Some r \<Rightarrow>
               if Status r \<noteq> ''pending''
               then (Some (Errorf ''enrollment is not in pending status'' None),
                     snd (db_call w (SelectByID eid)))
               else
                 (case Storage_Update
                         (Info (snd (db_call w (SelectByID eid))) ''Approving enrollment''
                            [zap_String ''id'' eid, zap_String ''approved_by'' approvedBy])
                         (r\<lparr>Status := ''approved'', ApprovedBy := Some approvedBy,
                            UpdatedAt := now\<rparr>) of
                    (Some err, w3) \<Rightarrow>
                      (Some (Errorf ''failed to update enrollment'' (Some err)), w3)
                  | (None, w3) \<Rightarrow> (None, Info w3 ''Enrollment queued for CA signing'' []))))"
  unfolding ApproveEnrollment_def
  by (subst GetByID_eq) (simp split: option.splits add: Let_def)

lemma Reject_eq:
  "RejectEnrollment w now eid rejectedBy reason =
     (case next_fault w of
        Some err \<Rightarrow>
          (Some (Errorf ''enrollment not found''
                   (Some (Errorf ''failed to get enrollment'' (Some err)))),
           snd (db_call w (SelectByID eid)))
      | None \<Rightarrow>
          (case row_of w eid of
             None \<Rightarrow>
               (Some (Errorf ''enrollment not found''
                        (Some (Errorf ''failed to get enrollment'' (Some ErrNoRows)))),
                snd (db_call w (SelectByID eid)))
           | Some r \<Rightarrow>
               if Status r \<noteq> ''pending''
               then (Some (Errorf ''enrollment is not in pending status'' None),
                     snd (db_call w (SelectByID eid)))
               else
                 (case Storage_Update
                         (Info (snd (db_call w (SelectByID eid))) ''Rejecting enrollment''
                            [zap_String ''id'' eid, zap_String ''rejected_by'' rejectedBy,
                             zap_String ''reason'' reason])
                         (r\<lparr>Status := ''rejected'', RejectedBy := Some rejectedBy,
                            RejectReason := Some reason, UpdatedAt := now\<rparr>) of
                    (Some err, w3) \<Rightarrow>
                      (Some (Errorf ''failed to update enrollment'' (Some err)), w3)
                  | (None, w3) \<Rightarrow> (None, w3))))"
  unfolding RejectEnrollment_def
  by (subst GetByID_eq) (simp split: option.splits add: Let_def)

lemma Approve_refused:
  assumes "row_of w eid = Some r" and "Status r \<noteq> ''pending''"
  shows "fst (ApproveEnrollment w now eid approvedBy) \<noteq> None"
    and "table (snd (ApproveEnrollment w now eid approvedBy)) = table w"
    and "next_fault w = None \<Longrightarrow> fst (ApproveEnrollment w now eid approvedBy) =
           Some (Errorf ''enrollment is not in pending status'' None)"
  using assms by (simp_all add: Approve_eq split: option.splits)

lemma Reject_refused:
  assumes "row_of w eid = Some r" and "Status r \<noteq> ''pending''"
  shows "fst (RejectEnrollment w now eid rejectedBy reason) \<noteq> None"
    and "table (snd (RejectEnrollment w now eid rejectedBy reason)) = table w"
    and "next_fault w = None \<Longrightarrow> fst (RejectEnrollment w now eid rejectedBy reason) =
           Some (Errorf ''enrollment is not in pending status'' None)"
  using assms by (simp_all add: Reject_eq split: option.splits)

lemma row_of_updated:
  "row_of w eid = Some r \<Longrightarrow> ID e = eid \<Longrightarrow>
   find (\<lambda>x. ID x = eid) (map (update_row e) (table w)) = Some (update_row e r)"
  by (simp add: find_map_update_row row_of_def)

lemma Approve_success:
  assumes "ApproveEnrollment w now eid approvedBy = (None, w1)"
  shows "\<exists>r. row_of w eid = Some r \<and> Status r = ''pending'' \<and>
             table w1 = map (update_row (r\<lparr>Status := ''approved'', ApprovedBy := Some approvedBy,
                                            UpdatedAt := now\<rparr>)) (table w) \<and>
             row_of w1 eid = Some (r\<lparr>Status := ''approved'', ApprovedBy := Some approvedBy,
                                      UpdatedAt := now\<rparr>)"
proof -
  from assms obtain r where r: "row_of w eid = Some r" "Status r = ''pending''"
    by (auto simp: Approve_eq split: option.splits if_splits)
  let ?e = "r\<lparr>Status := ''approved'', ApprovedBy := Some approvedBy, UpdatedAt := now\<rparr>"
  from assms r have t: "table w1 = map (update_row ?e) (table w)"
    by (auto simp: Approve_eq Update_eq split: option.splits if_splits)
  have "ID ?e = eid" using r(1) by (simp add: row_of_ID)
  with r(1) have "find (\<lambda>x. ID x = eid) (map (update_row ?e) (table w)) = Some (update_row ?e r)"
    by (rule row_of_updated)
  moreover have "update_row ?e r = ?e" by (simp add: update_row_def)
  ultimately have "row_of w1 eid = Some ?e" using t by (simp add: row_of_def)
  with r t show ?thesis by blast
qed

lemma Reject_success:
  assumes "RejectEnrollment w now eid rejectedBy reason = (None, w1)"
  shows "\<exists>r. row_of w eid = Some r \<and> Status r = ''pending'' \<and>
             table w1 = map (update_row (r\<lparr>Status := ''rejected'', RejectedBy := Some rejectedBy,
                                            RejectReason := Some reason, UpdatedAt := now\<rparr>))
                          (table w) \<and>
             row_of w1 eid = Some (r\<lparr>Status := ''rejected'', RejectedBy := Some rejectedBy,
                                      RejectReason := Some reason, UpdatedAt := now\<rparr>)"
proof -
  from assms obtain r where r: "row_of w eid = Some r" "Status r = ''pending''"
    by (auto simp: Reject_eq split: option.splits if_splits)
  let ?e = "r\<lparr>Status := ''rejected'', RejectedBy := Some rejectedBy,
               RejectReason := Some reason, UpdatedAt := now\<rparr>"
  from assms r have t: "table w1 = map (update_row ?e) (table w)"
    by (auto simp: Reject_eq Update_eq split: option.splits if_splits)
  have "ID ?e = eid" using r(1) by (simp add: row_of_ID)
  with r(1) have "find (\<lambda>x. ID x = eid) (map (update_row ?e) (table w)) = Some (update_row ?e r)"
    by (rule row_of_updated)
  moreover have "update_row ?e r = ?e" by (simp add: update_row_def)
  ultimately have "row_of w1 eid = Some ?e" using t by (simp add: row_of_def)
  with r t show ?thesis by blast
qed

lemma db_available_2:
  "db_available 2 w \<Longrightarrow> next_fault w = None \<and> next_fault (snd (db_call w q)) = None"
  by (cases "faults w"; cases "tl (faults w)")
     (auto simp: db_available_def next_fault_def numeral_2_eq_2 db_call_def)

lemma db_available_1: "db_available 1 w = (next_fault w = None)"
  by (cases "faults w") (auto simp: db_available_def next_fault_def)

lemma Approve_pending:
  assumes "row_of w eid = Some r" and "Status r = ''pending''" and "db_available 2 w"
  shows "fst (ApproveEnrollment w now eid approvedBy) = None"
proof -
  from db_available_2 [OF assms(3), of "SelectByID eid"]
  have "next_fault w = None" "next_fault (snd (db_call w (SelectByID eid))) = None" by simp_all
  with assms(1,2) show ?thesis by (simp add: Approve_eq Update_eq)
qed

lemma Approve_no_ca:
  "ca_requests (snd (ApproveEnrollment w now eid approvedBy)) = ca_requests w \<and>
   ca_replies (snd (ApproveEnrollment w now eid approvedBy)) = ca_replies w"
  by (simp add: Approve_eq Update_eq split: option.splits)

section \<open>Creating an enrollment\<close>

text \<open>
  Claim C1. When the request parses and its subject common name differs from the
  claimed common name (a byte-exact comparison of the two strings), \<open>CreateEnrollment\<close>
  returns the error "CSR common name does not match provided common name" and nothing
  is persisted: the table and the sequence are as before, and no statement was sent to
  the database (\<open>queries\<close> and \<open>faults\<close> are untouched, so \<open>Storage_Create\<close> never ran).
\<close>

theorem create_identity_mismatch:
  assumes "ParseCSR csrPEM = Inr csr" and "Subject_CommonName csr \<noteq> cn"
  shows "fst (CreateEnrollment ParseCSR w t1 t2 cn org email csrPEM) =
           Inl (Errorf ''CSR common name does not match provided common name'' None) \<and>
         table (snd (CreateEnrollment ParseCSR w t1 t2 cn org email csrPEM)) = table w \<and>
         id_seq (snd (CreateEnrollment ParseCSR w t1 t2 cn org email csrPEM)) = id_seq w \<and>
         queries (snd (CreateEnrollment ParseCSR w t1 t2 cn org email csrPEM)) = queries w \<and>
         faults (snd (CreateEnrollment ParseCSR w t1 t2 cn org email csrPEM)) = faults w"
  using assms by (simp add: CreateEnrollment_def)

theorem create_identity_mismatch_witness:
  "sample_ParseCSR ''CN=evil.example.com'' = Inr \<lparr>Subject_CommonName = ''evil.example.com''\<rparr> \<and>
   Subject_CommonName \<lparr>Subject_CommonName = ''evil.example.com''\<rparr> \<noteq> ''api.example.com'' \<and>
   fst (CreateEnrollment sample_ParseCSR pending_world 30 31 ''api.example.com'' ''Ops''
          ''ops@example.com'' ''CN=evil.example.com'') =
     Inl (Errorf ''CSR common name does not match provided common name'' None) \<and>
   table (snd (CreateEnrollment sample_ParseCSR pending_world 30 31 ''api.example.com'' ''Ops''
          ''ops@example.com'' ''CN=evil.example.com'')) = table pending_world \<and>
   queries (snd (CreateEnrollment sample_ParseCSR pending_world 30 31 ''api.example.com'' ''Ops''
          ''ops@example.com'' ''CN=evil.example.com'')) = queries pending_world"
proof -
  have p: "sample_ParseCSR ''CN=evil.example.com'' =
             Inr \<lparr>Subject_CommonName = ''evil.example.com''\<rparr>"
    by (simp add: sample_ParseCSR_def)
  have n: "Subject_CommonName \<lparr>Subject_CommonName = ''evil.example.com''\<rparr> \<noteq> ''api.example.com''"
    by simp
  from create_identity_mismatch
         [of sample_ParseCSR "''CN=evil.example.com''"
             "\<lparr>Subject_CommonName = ''evil.example.com''\<rparr>" "''api.example.com''"
             pending_world 30 31 "''Ops''" "''ops@example.com''", OF p n] p n
  show ?thesis by blast
qed

text \<open>
  Claim C5. When the request parses, its subject common name equals the claimed common
  name and the database executes the insert, \<open>CreateEnrollment\<close> succeeds: it returns
  the new enrollment, which carries the id drawn from the sequence and status
  \<^verbatim>\<open>pending\<close>, and that record is the row appended to the table.
\<close>

theorem create_matching_pending:
  assumes "ParseCSR csrPEM = Inr csr" and "Subject_CommonName csr = cn"
    and "db_available 1 w"
  shows "\<exists>created w'.
           CreateEnrollment ParseCSR w t1 t2 cn org email csrPEM = (Inr created, w') \<and>
           Status created = ''pending'' \<and>
           created = \<lparr>ID = string_of_nat (id_seq w), CommonName = cn, Organization = org,
                      Email = email, CSR = csrPEM, Status = ''pending'', ApprovedBy = None,
                      RejectedBy = None, RejectReason = None, CreatedAt = t1, UpdatedAt = t2\<rparr> \<and>
           table w' = table w @ [created]"
proof -
  from assms(3) have "next_fault w = None" by (simp only: db_available_1)
  with assms(1,2) show ?thesis
    by (simp add: CreateEnrollment_def Create_eq Let_def)
qed

theorem create_matching_pending_witness:
  "sample_ParseCSR ''CN=svc.internal'' = Inr \<lparr>Subject_CommonName = ''svc.internal''\<rparr> \<and>
   db_available 1 pending_world \<and>
   (\<exists>created w'.
      CreateEnrollment sample_ParseCSR pending_world 30 31 ''svc.internal'' ''Ops''
        ''ops@example.com'' ''CN=svc.internal'' = (Inr created, w') \<and>
      Status created = ''pending'' \<and>
      created = \<lparr>ID = string_of_nat (id_seq pending_world), CommonName = ''svc.internal'',
                 Organization = ''Ops'', Email = ''ops@example.com'', CSR = ''CN=svc.internal'',
                 Status = ''pending'', ApprovedBy = None, RejectedBy = None,
                 RejectReason = None, CreatedAt = 30, UpdatedAt = 31\<rparr> \<and>
      table w' = table pending_world @ [created])"
proof -
  have p: "sample_ParseCSR ''CN=svc.internal'' = Inr \<lparr>Subject_CommonName = ''svc.internal''\<rparr>"
    by (simp add: sample_ParseCSR_def)
  have c: "Subject_CommonName \<lparr>Subject_CommonName = ''svc.internal''\<rparr> = ''svc.internal''"
    by simp
  have a: "db_available 1 pending_world"
    by (simp add: db_available_def pending_world_def empty_world_def)
  from create_matching_pending
         [of sample_ParseCSR "''CN=svc.internal''" "\<lparr>Subject_CommonName = ''svc.internal''\<rparr>"
             "''svc.internal''" pending_world 30 31 "''Ops''" "''ops@example.com''", OF p c a] p a
  show ?thesis by blast
qed

lemma pending_world_row: "row_of pending_world ''1'' = Some (sample_row ''1'' ''pending'')"
  by (simp add: row_of_def pending_world_def empty_world_def sample_row_def)

lemma pending_world_available: "db_available n pending_world"
  by (simp add: db_available_def pending_world_def empty_world_def)

lemma approved_world_row:
  "row_of approved_world ''1'' = Some ((sample_row ''1'' ''approved'')\<lparr>ApprovedBy := Some ''alice''\<rparr>)"
  by (simp add: row_of_def approved_world_def empty_world_def sample_row_def)

lemma approved_world_available: "db_available n approved_world"
  by (simp add: db_available_def approved_world_def empty_world_def)

section \<open>Approving and rejecting\<close>

text \<open>
  Claim C3. For a record whose status is not \<^verbatim>\<open>pending\<close>, \<open>ApproveEnrollment\<close> and
  \<open>RejectEnrollment\<close> fail and leave the table as it was, whatever the database does;
  when the read is executed, the error is "enrollment is not in pending status". In
  particular an approval that follows a successful approval, or a successful rejection,
  of the same id gets that error and changes nothing.
\<close>

theorem non_pending_refused:
  "(row_of w eid = Some r \<and> Status r \<noteq> ''pending'' \<longrightarrow>
      fst (ApproveEnrollment w now eid approvedBy) \<noteq> None \<and>
      table (snd (ApproveEnrollment w now eid approvedBy)) = table w \<and>
      fst (RejectEnrollment w now eid rejectedBy reason) \<noteq> None \<and>
      table (snd (RejectEnrollment w now eid rejectedBy reason)) = table w) \<and>
   (row_of w eid = Some r \<and> Status r \<noteq> ''pending'' \<and> db_available 1 w \<longrightarrow>
      fst (ApproveEnrollment w now eid approvedBy) =
        Some (Errorf ''enrollment is not in pending status'' None) \<and>
      fst (RejectEnrollment w now eid rejectedBy reason) =
        Some (Errorf ''enrollment is not in pending status'' None)) \<and>
   (ApproveEnrollment w now eid approvedBy = (None, w1) \<and> db_available 1 w1 \<longrightarrow>
      fst (ApproveEnrollment w1 now' eid approvedBy') =
        Some (Errorf ''enrollment is not in pending status'' None) \<and>
      table (snd (ApproveEnrollment w1 now' eid approvedBy')) = table w1) \<and>
   (RejectEnrollment w now eid rejectedBy reason = (None, w1) \<and> db_available 1 w1 \<longrightarrow>
      fst (ApproveEnrollment w1 now' eid approvedBy') =
        Some (Errorf ''enrollment is not in pending status'' None) \<and>
      table (snd (ApproveEnrollment w1 now' eid approvedBy')) = table w1)"
proof (intro conjI impI)
  assume a: "ApproveEnrollment w now eid approvedBy = (None, w1) \<and> db_available 1 w1"
  then obtain r' where r': "row_of w1 eid = Some r'" "Status r' = ''approved''"
    using Approve_success [of w now eid approvedBy w1] by auto
  from a have nf: "next_fault w1 = None" by (simp only: db_available_1)
  from r' have np: "Status r' \<noteq> ''pending''" by simp
  show "fst (ApproveEnrollment w1 now' eid approvedBy') =
          Some (Errorf ''enrollment is not in pending status'' None)"
    using Approve_refused(3) [OF r'(1) np nf] .
  show "table (snd (ApproveEnrollment w1 now' eid approvedBy')) = table w1"
    using Approve_refused(2) [OF r'(1) np] .
next
  assume a: "RejectEnrollment w now eid rejectedBy reason = (None, w1) \<and> db_available 1 w1"
  then obtain r' where r': "row_of w1 eid = Some r'" "Status r' = ''rejected''"
    using Reject_success [of w now eid rejectedBy reason w1] by auto
  from a have nf: "next_fault w1 = None" by (simp only: db_available_1)
  from r' have np: "Status r' \<noteq> ''pending''" by simp
  show "fst (ApproveEnrollment w1 now' eid approvedBy') =
          Some (Errorf ''enrollment is not in pending status'' None)"
    using Approve_refused(3) [OF r'(1) np nf] .
  show "table (snd (ApproveEnrollment w1 now' eid approvedBy')) = table w1"
    using Approve_refused(2) [OF r'(1) np] .
qed (simp_all only: db_available_1 Approve_refused Reject_refused not_False_eq_True)

lemma Approve_faults: "faults w = [] \<Longrightarrow> faults (snd (ApproveEnrollment w now eid approvedBy)) = []"
  by (simp add: Approve_eq Update_eq next_fault_def Info_def split: option.splits)

lemma Reject_faults:
  "faults w = [] \<Longrightarrow> faults (snd (RejectEnrollment w now eid rejectedBy reason)) = []"
  by (simp add: Reject_eq Update_eq next_fault_def split: option.splits)

lemma Reject_pending:
  assumes "row_of w eid = Some r" and "Status r = ''pending''" and "db_available 2 w"
  shows "fst (RejectEnrollment w now eid rejectedBy reason) = None"
proof -
  from db_available_2 [OF assms(3), of "SelectByID eid"]
  have "next_fault w = None" "next_fault (snd (db_call w (SelectByID eid))) = None" by simp_all
  with assms(1,2) show ?thesis by (simp add: Reject_eq Update_eq)
qed

lemma faults_empty_available: "faults w = [] \<Longrightarrow> db_available n w"
  by (simp add: db_available_def)

lemma pending_world_faults: "faults pending_world = []"
  by (simp add: pending_world_def empty_world_def)

theorem non_pending_refused_witness:
  "row_of approved_world ''1'' =
     Some ((sample_row ''1'' ''approved'')\<lparr>ApprovedBy := Some ''alice''\<rparr>) \<and>
   db_available 1 approved_world \<and>
   fst (ApproveEnrollment approved_world 20 ''1'' ''bob'') =
     Some (Errorf ''enrollment is not in pending status'' None) \<and>
   fst (RejectEnrollment approved_world 20 ''1'' ''bob'' ''duplicate request'') =
     Some (Errorf ''enrollment is not in pending status'' None) \<and>
   table (snd (ApproveEnrollment approved_world 20 ''1'' ''bob'')) = table approved_world \<and>
   fst (ApproveEnrollment pending_world 20 ''1'' ''alice'') = None \<and>
   fst (ApproveEnrollment (snd (ApproveEnrollment pending_world 20 ''1'' ''alice'')) 21 ''1'' ''bob'') =
     Some (Errorf ''enrollment is not in pending status'' None) \<and>
   fst (RejectEnrollment pending_world 20 ''1'' ''carol'' ''duplicate request'') = None \<and>
   fst (ApproveEnrollment
          (snd (RejectEnrollment pending_world 20 ''1'' ''carol'' ''duplicate request''))
          21 ''1'' ''bob'') =
     Some (Errorf ''enrollment is not in pending status'' None)"
proof -
  let ?r = "(sample_row ''1'' ''approved'')\<lparr>ApprovedBy := Some ''alice''\<rparr>"
  let ?wa = "snd (ApproveEnrollment pending_world 20 ''1'' ''alice'')"
  let ?wr = "snd (RejectEnrollment pending_world 20 ''1'' ''carol'' ''duplicate request'')"
  have np: "Status ?r \<noteq> ''pending''" by (simp add: sample_row_def)
  have pend: "Status (sample_row ''1'' ''pending'') = ''pending''" by (simp add: sample_row_def)
  have a: "fst (ApproveEnrollment pending_world 20 ''1'' ''alice'') = None"
    using Approve_pending [OF pending_world_row pend pending_world_available] .
  have b: "fst (RejectEnrollment pending_world 20 ''1'' ''carol'' ''duplicate request'') = None"
    using Reject_pending [OF pending_world_row pend pending_world_available] .
  have a': "ApproveEnrollment pending_world 20 ''1'' ''alice'' = (None, ?wa)"
    using a by (simp add: prod_eq_iff)
  have b': "RejectEnrollment pending_world 20 ''1'' ''carol'' ''duplicate request'' = (None, ?wr)"
    using b by (simp add: prod_eq_iff)
  have ava: "db_available 1 ?wa"
    by (rule faults_empty_available) (rule Approve_faults [OF pending_world_faults])
  have avr: "db_available 1 ?wr"
    by (rule faults_empty_available) (rule Reject_faults [OF pending_world_faults])
  note t1 = non_pending_refused [of approved_world "''1''" ?r 20 "''bob''" "''bob''"
              "''duplicate request''"]
  note t2 = non_pending_refused [of pending_world "''1''" _ 20 "''alice''" _ _ ?wa 21 "''bob''"]
  note t3 = non_pending_refused [of pending_world "''1''" _ 20 _ "''carol''"
              "''duplicate request''" ?wr 21 "''bob''"]
  from t1 approved_world_row np approved_world_available [of 1]
  have "fst (ApproveEnrollment approved_world 20 ''1'' ''bob'') =
          Some (Errorf ''enrollment is not in pending status'' None)"
       "fst (RejectEnrollment approved_world 20 ''1'' ''bob'' ''duplicate request'') =
          Some (Errorf ''enrollment is not in pending status'' None)"
       "table (snd (ApproveEnrollment approved_world 20 ''1'' ''bob'')) = table approved_world"
    by blast+
  moreover from t2 a' ava
  have "fst (ApproveEnrollment ?wa 21 ''1'' ''bob'') =
          Some (Errorf ''enrollment is not in pending status'' None)"
    by blast
  moreover from t3 b' avr
  have "fst (ApproveEnrollment ?wr 21 ''1'' ''bob'') =
          Some (Errorf ''enrollment is not in pending status'' None)"
    by blast
  ultimately show ?thesis
    using approved_world_row approved_world_available [of 1] a b by blast
qed

text \<open>
  Claim C6. On a pending record, with a database that executes the read and the write,
  \<open>ApproveEnrollment\<close> succeeds. Every successful call found the record pending and
  leaves it with status \<^verbatim>\<open>approved\<close>, \<^verbatim>\<open>approved_by\<close> set to the caller's argument and
  \<^verbatim>\<open>updated_at\<close> set to the clock reading of the call, written to the table; no
  request went to the CA and no reply of the CA was consumed.
\<close>

theorem approve_commits_decision:
  "(row_of w eid = Some r \<and> Status r = ''pending'' \<and> db_available 2 w \<longrightarrow>
      fst (ApproveEnrollment w now eid approvedBy) = None) \<and>
   (ApproveEnrollment w now eid approvedBy = (None, w1) \<longrightarrow>
      (\<exists>p. row_of w eid = Some p \<and> Status p = ''pending'' \<and>
           row_of w1 eid =
             Some (p\<lparr>Status := ''approved'', ApprovedBy := Some approvedBy, UpdatedAt := now\<rparr>) \<and>
           table w1 =
             map (update_row
                    (p\<lparr>Status := ''approved'', ApprovedBy := Some approvedBy, UpdatedAt := now\<rparr>))
                 (table w)) \<and>
      ca_requests w1 = ca_requests w \<and> ca_replies w1 = ca_replies w)"
proof (intro conjI impI)
  assume "row_of w eid = Some r \<and> Status r = ''pending'' \<and> db_available 2 w"
  then show "fst (ApproveEnrollment w now eid approvedBy) = None"
    using Approve_pending by blast
next
  assume a: "ApproveEnrollment w now eid approvedBy = (None, w1)"
  from Approve_success [OF a]
  show "\<exists>p. row_of w eid = Some p \<and> Status p = ''pending'' \<and>
           row_of w1 eid =
             Some (p\<lparr>Status := ''approved'', ApprovedBy := Some approvedBy, UpdatedAt := now\<rparr>) \<and>
           table w1 =
             map (update_row
                    (p\<lparr>Status := ''approved'', ApprovedBy := Some approvedBy, UpdatedAt := now\<rparr>))
                 (table w)"
    by blast
  from Approve_no_ca [of w now eid approvedBy] a
  show "ca_requests w1 = ca_requests w" and "ca_replies w1 = ca_replies w" by simp_all
qed

theorem approve_commits_decision_witness:
  "row_of pending_world ''1'' = Some (sample_row ''1'' ''pending'') \<and>
   db_available 2 pending_world \<and>
   fst (ApproveEnrollment pending_world 20 ''1'' ''alice'') = None \<and>
   row_of (snd (ApproveEnrollment pending_world 20 ''1'' ''alice'')) ''1'' =
     Some ((sample_row ''1'' ''pending'')
             \<lparr>Status := ''approved'', ApprovedBy := Some ''alice'', UpdatedAt := 20\<rparr>) \<and>
   ca_requests (snd (ApproveEnrollment pending_world 20 ''1'' ''alice'')) = []"
proof -
  let ?w1 = "snd (ApproveEnrollment pending_world 20 ''1'' ''alice'')"
  have pend: "Status (sample_row ''1'' ''pending'') = ''pending''" by (simp add: sample_row_def)
  note t = approve_commits_decision
             [of pending_world "''1''" "sample_row ''1'' ''pending''" 20 "''alice''" ?w1]
  from t pending_world_row pend pending_world_available [of 2]
  have a: "fst (ApproveEnrollment pending_world 20 ''1'' ''alice'') = None" by blast
  then have a': "ApproveEnrollment pending_world 20 ''1'' ''alice'' = (None, ?w1)"
    by (simp add: prod_eq_iff)
  with t obtain p where p: "row_of pending_world ''1'' = Some p"
      "row_of ?w1 ''1'' =
         Some (p\<lparr>Status := ''approved'', ApprovedBy := Some ''alice'', UpdatedAt := 20\<rparr>)"
      "ca_requests ?w1 = ca_requests pending_world"
    by blast
  from p(1) pending_world_row have "p = sample_row ''1'' ''pending''" by simp
  moreover have "ca_requests pending_world = []" by (simp add: pending_world_def empty_world_def)
  ultimately show ?thesis
    using p pending_world_row pending_world_available [of 2] a by simp
qed

lemma failing_world_row: "row_of failing_world ''1'' = Some (sample_row ''1'' ''pending'')"
  by (simp add: row_of_def failing_world_def pending_world_def empty_world_def sample_row_def)

lemma failing_world_fault: "next_fault failing_world = Some (ErrDriver ''connection refused'')"
  by (simp add: next_fault_def failing_world_def)

section \<open>The error for a failed read\<close>

text \<open>
  Claim C8 says that "not found" is returned exactly when no record has the id, and never
  for a storage failure. Here the record with id 1 exists and the database drops the
  connection on the read: both operations return "enrollment not found", wrapped around
  the driver's error.
\<close>

theorem read_failure_reported_not_found:
  "row_of failing_world ''1'' = Some (sample_row ''1'' ''pending'') \<and>
   fst (ApproveEnrollment failing_world 20 ''1'' ''alice'') =
     Some (Errorf ''enrollment not found''
             (Some (Errorf ''failed to get enrollment''
                      (Some (ErrDriver ''connection refused''))))) \<and>
   fst (RejectEnrollment failing_world 20 ''1'' ''bob'' ''duplicate request'') =
     Some (Errorf ''enrollment not found''
             (Some (Errorf ''failed to get enrollment''
                      (Some (ErrDriver ''connection refused''))))) \<and>
   is_not_found (fst (ApproveEnrollment failing_world 20 ''1'' ''alice'')) \<and>
   is_not_found (fst (RejectEnrollment failing_world 20 ''1'' ''bob'' ''duplicate request'')) \<and>
   Error (Errorf ''enrollment not found''
            (Some (Errorf ''failed to get enrollment''
                     (Some (ErrDriver ''connection refused''))))) =
     ''enrollment not found: failed to get enrollment: connection refused''"
  by (simp add: failing_world_row failing_world_fault Approve_eq Reject_eq is_not_found_def)

lemma Update_result_not_found:
  "\<not> is_not_found
       (fst (case Storage_Update w e of
               (Some err, w3) \<Rightarrow> (Some (Errorf ''failed to update enrollment'' (Some err)), w3)
             | (None, w3) \<Rightarrow> (None, f w3)))"
  by (simp add: Update_eq is_not_found_def split: option.splits)

text \<open>
  Claim C8, as the code has it. \<open>ApproveEnrollment\<close> and \<open>RejectEnrollment\<close> return
  "enrollment not found" exactly when the read fails, for either reason: the database
  reports an error, or no row has the id. The two cases differ in the innermost wrapped
  cause only: \<^verbatim>\<open>pgx.ErrNoRows\<close> for the missing row, the driver's error otherwise.
\<close>

theorem not_found_iff_read_fails:
  "is_not_found (fst (ApproveEnrollment w now eid approvedBy)) =
     (next_fault w \<noteq> None \<or> row_of w eid = None) \<and>
   is_not_found (fst (RejectEnrollment w now eid rejectedBy reason)) =
     (next_fault w \<noteq> None \<or> row_of w eid = None) \<and>
   (next_fault w = None \<and> row_of w eid = None \<longrightarrow>
      fst (ApproveEnrollment w now eid approvedBy) =
        Some (Errorf ''enrollment not found''
                (Some (Errorf ''failed to get enrollment'' (Some ErrNoRows)))) \<and>
      fst (RejectEnrollment w now eid rejectedBy reason) =
        Some (Errorf ''enrollment not found''
                (Some (Errorf ''failed to get enrollment'' (Some ErrNoRows))))) \<and>
   (next_fault w = Some err \<longrightarrow>
      fst (ApproveEnrollment w now eid approvedBy) =
        Some (Errorf ''enrollment not found''
                (Some (Errorf ''failed to get enrollment'' (Some err)))) \<and>
      fst (RejectEnrollment w now eid rejectedBy reason) =
        Some (Errorf ''enrollment not found''
                (Some (Errorf ''failed to get enrollment'' (Some err)))))"
proof (intro conjI impI)
  show "is_not_found (fst (ApproveEnrollment w now eid approvedBy)) =
          (next_fault w \<noteq> None \<or> row_of w eid = None)"
    by (cases "next_fault w"; cases "row_of w eid")
       (simp_all add: Approve_eq Update_result_not_found, simp_all add: is_not_found_def)
  show "is_not_found (fst (RejectEnrollment w now eid rejectedBy reason)) =
          (next_fault w \<noteq> None \<or> row_of w eid = None)"
    by (cases "next_fault w"; cases "row_of w eid")
       (simp_all add: Reject_eq Update_result_not_found [where f = "\<lambda>w. w"],
        simp_all add: is_not_found_def)
qed (simp_all add: Approve_eq Reject_eq)

lemma empty_world_no_row: "row_of empty_world eid = None"
  by (simp add: row_of_def empty_world_def)

lemma empty_world_no_fault: "next_fault empty_world = None"
  by (simp add: next_fault_def empty_world_def)

theorem not_found_iff_read_fails_witness:
  "next_fault empty_world = None \<and> row_of empty_world ''7'' = None \<and>
   fst (ApproveEnrollment empty_world 20 ''7'' ''alice'') =
     Some (Errorf ''enrollment not found''
             (Some (Errorf ''failed to get enrollment'' (Some ErrNoRows)))) \<and>
   is_not_found (fst (ApproveEnrollment empty_world 20 ''7'' ''alice'')) \<and>
   next_fault failing_world = Some (ErrDriver ''connection refused'') \<and>
   fst (RejectEnrollment failing_world 20 ''1'' ''bob'' ''duplicate request'') =
     Some (Errorf ''enrollment not found''
             (Some (Errorf ''failed to get enrollment''
                      (Some (ErrDriver ''connection refused''))))) \<and>
   is_not_found (fst (RejectEnrollment failing_world 20 ''1'' ''bob'' ''duplicate request'')) \<and>
   \<not> is_not_found (fst (ApproveEnrollment pending_world 20 ''1'' ''alice''))"
proof -
  note t1 = not_found_iff_read_fails [of empty_world 20 "''7''" "''alice''" "''bob''"
              "''duplicate request''"]
  note t2 = not_found_iff_read_fails [of failing_world 20 "''1''" "''alice''" "''bob''"
              "''duplicate request''" "ErrDriver ''connection refused''"]
  note t3 = not_found_iff_read_fails [of pending_world 20 "''1''" "''alice''" "''bob''"
              "''duplicate request''"]
  have nf: "next_fault pending_world = None"
    by (simp add: next_fault_def pending_world_def empty_world_def)
  from t3 nf pending_world_row
  have "\<not> is_not_found (fst (ApproveEnrollment pending_world 20 ''1'' ''alice''))" by simp
  moreover from t1 empty_world_no_fault empty_world_no_row [of "''7''"]
  have "fst (ApproveEnrollment empty_world 20 ''7'' ''alice'') =
          Some (Errorf ''enrollment not found''
                  (Some (Errorf ''failed to get enrollment'' (Some ErrNoRows))))"
       "is_not_found (fst (ApproveEnrollment empty_world 20 ''7'' ''alice''))"
    by blast+
  moreover from t2 failing_world_fault
  have "fst (RejectEnrollment failing_world 20 ''1'' ''bob'' ''duplicate request'') =
          Some (Errorf ''enrollment not found''
                  (Some (Errorf ''failed to get enrollment''
                           (Some (ErrDriver ''connection refused'')))))"
       "is_not_found (fst (RejectEnrollment failing_world 20 ''1'' ''bob'' ''duplicate request''))"
    by (simp_all add: is_not_found_def)
  ultimately show ?thesis
    using empty_world_no_fault empty_world_no_row [of "''7''"] failing_world_fault by blast
qed




section \<open>Listing\<close>




lemma SignCSR_table [simp]: "table (snd (SignCSR w csrPEM validityDays)) = table w"
  by (simp add: SignCSR_def ca_Info_def Let_def split: list.splits sum.splits)

lemma List_table [simp]: "table (snd (Storage_List w status)) = table w"
  unfolding Storage_List_def
  by (subst db_call_eq) (simp add: Let_def split: option.splits)

lemma GetByID_table [simp]: "table (snd (Storage_GetByID w eid)) = table w"
  by (simp add: GetByID_eq)

lemma Create_table:
  "table (snd (CreateEnrollment ParseCSR w t1 t2 cn org email csrPEM)) = table w \<or>
   (\<exists>i. table (snd (CreateEnrollment ParseCSR w t1 t2 cn org email csrPEM)) =
      table w @ [\<lparr>ID = i, CommonName = cn, Organization = org, Email = email, CSR = csrPEM,
                  Status = ''pending'', ApprovedBy = None, RejectedBy = None,
                  RejectReason = None, CreatedAt = t1, UpdatedAt = t2\<rparr>])"
  by (simp add: CreateEnrollment_def Create_eq Let_def split: sum.splits option.splits)

lemma Approve_table:
  "table (snd (ApproveEnrollment w now eid approvedBy)) = table w \<or>
   (\<exists>p. row_of w eid = Some p \<and> Status p = ''pending'' \<and>
        table (snd (ApproveEnrollment w now eid approvedBy)) =
          map (update_row (p\<lparr>Status := ''approved'', ApprovedBy := Some approvedBy,
                             UpdatedAt := now\<rparr>)) (table w))"
  by (simp add: Approve_eq Update_eq split: option.splits)

lemma Reject_table:
  "table (snd (RejectEnrollment w now eid rejectedBy reason)) = table w \<or>
   (\<exists>p. row_of w eid = Some p \<and> Status p = ''pending'' \<and>
        table (snd (RejectEnrollment w now eid rejectedBy reason)) =
          map (update_row (p\<lparr>Status := ''rejected'', RejectedBy := Some rejectedBy,
                             RejectReason := Some reason, UpdatedAt := now\<rparr>)) (table w))"
  by (simp add: Reject_eq Update_eq split: option.splits)

lemma step_keeps:
  assumes k: "kept_by_writes Q" and all: "\<forall>r \<in> set (table w). Q r"
  shows "\<forall>r \<in> set (table (step ParseCSR w c)). Q r"
proof (cases c)
  case (OpCreate t1 t2 cn org email csrPEM)
  from Create_table [of ParseCSR w t1 t2 cn org email csrPEM] k all show ?thesis
    unfolding OpCreate kept_by_writes_def by (elim disjE exE) auto
next
  case (OpApprove now eid approvedBy)
  from Approve_table [of w now eid approvedBy] show ?thesis
  proof (elim disjE exE conjE)
    fix p
    assume p: "row_of w eid = Some p" "Status p = ''pending''"
      and t: "table (snd (ApproveEnrollment w now eid approvedBy)) =
          map (update_row (p\<lparr>Status := ''approved'', ApprovedBy := Some approvedBy,
                             UpdatedAt := now\<rparr>)) (table w)"
    from p(1) all have "Q p" by (auto dest: row_of_mem)
    with k all p(2) show ?thesis unfolding OpApprove kept_by_writes_def by (simp add: t)
  qed (simp add: OpApprove all)
next
  case (OpReject now eid rejectedBy reason)
  from Reject_table [of w now eid rejectedBy reason] show ?thesis
  proof (elim disjE exE conjE)
    fix p
    assume p: "row_of w eid = Some p" "Status p = ''pending''"
      and t: "table (snd (RejectEnrollment w now eid rejectedBy reason)) =
          map (update_row (p\<lparr>Status := ''rejected'', RejectedBy := Some rejectedBy,
                             RejectReason := Some reason, UpdatedAt := now\<rparr>)) (table w)"
    from p(1) all have "Q p" by (auto dest: row_of_mem)
    with k all p(2) show ?thesis unfolding OpReject kept_by_writes_def by (simp add: t)
  qed (simp add: OpReject all)
qed (simp_all add: all ListEnrollments_def GetEnrollment_def)

lemma run_keeps:
  assumes "kept_by_writes Q" and "\<forall>r \<in> set (table w). Q r"
  shows "\<forall>r \<in> set (table (run ParseCSR w ops)). Q r"
  using assms(2) unfolding run_def
proof (induction ops arbitrary: w)
  case Nil
  then show ?case by simp
next
  case (Cons c ops)
  from step_keeps [OF assms(1) Cons.prems, of ParseCSR c] have "\<forall>r \<in> set (table (step ParseCSR w c)). Q r" .
  from Cons.IH [OF this] show ?case by simp
qed

lemma kept_decision_fields: "kept_by_writes (decision_fields is_set)"
  unfolding kept_by_writes_def decision_fields_def is_set_def approved_states_def update_row_def
  by (auto split: option.splits)

lemma kept_statuses: "kept_by_writes (\<lambda>r. Status r \<in> written_statuses)"
  unfolding kept_by_writes_def written_statuses_def update_row_def by auto

lemma sample_session_statuses:
  "map (\<lambda>r. (ID r, Status r, ApprovedBy r, RejectedBy r, RejectReason r))
     (table (run sample_ParseCSR empty_world sample_session)) =
   [(''1'', ''approved'', Some ''alice'', None, None),
    (''2'', ''rejected'', None, Some ''bob'', Some ''duplicate request''),
    (''3'', ''pending'', None, None, None)]"
  by (simp add: run_def sample_session_def empty_world_def sample_ParseCSR_def
        CreateEnrollment_def Storage_Create_def db_call_def Info_def string_of_nat.simps
        ApproveEnrollment_def RejectEnrollment_def Storage_GetByID_def Storage_Update_def
        update_row_def Let_def ListEnrollments_def GetEnrollment_def SignCSR_def ca_Info_def
        Storage_List_def)

section \<open>Invariants of the stored records\<close>

text \<open>
  Claim C7 asks for decision fields that are non-empty exactly in their states. The
  service stores the actor strings as they arrive: after creating an enrollment and
  approving it with the empty string as \<^verbatim>\<open>approvedBy\<close>, the record has status
  \<^verbatim>\<open>approved\<close> and an \<^verbatim>\<open>approved_by\<close> that points to the empty string.
\<close>
theorem empty_approver_counterexample:
  "map (\<lambda>r. (Status r, ApprovedBy r))
     (table (run sample_ParseCSR empty_world
        [OpCreate 30 31 ''svc.internal'' ''Ops'' ''ops@example.com'' ''CN=svc.internal'',
         OpApprove 40 ''1'' []])) = [(''approved'', Some [])] \<and>
   \<not> list_all (decision_fields non_empty)
     (table (run sample_ParseCSR empty_world
        [OpCreate 30 31 ''svc.internal'' ''Ops'' ''ops@example.com'' ''CN=svc.internal'',
         OpApprove 40 ''1'' []]))"
  by (simp add: run_def empty_world_def sample_ParseCSR_def
        CreateEnrollment_def Storage_Create_def db_call_def Info_def string_of_nat.simps
        ApproveEnrollment_def Storage_GetByID_def Storage_Update_def
        update_row_def Let_def decision_fields_def non_empty_def approved_states_def)

text \<open>
  Claim C7, as the code has it, with "set" (the pointer is not nil) in place of
  "non-empty". If every stored record satisfies: \<^verbatim>\<open>approved_by\<close> is set iff the status
  is one of \<^verbatim>\<open>approved\<close>, \<^verbatim>\<open>issued\<close>, \<^verbatim>\<open>issuance_failed\<close>; \<^verbatim>\<open>rejected_by\<close> and
  \<^verbatim>\<open>reject_reason\<close> are set iff the status is \<^verbatim>\<open>rejected\<close>; \<^verbatim>\<open>approved_by\<close> and
  \<^verbatim>\<open>rejected_by\<close> are never both set; then so does every record after any sequence of
  operations. The empty table satisfies it, so it holds of every record the operations
  create and decide.
\<close>
theorem decision_fields_invariant:
  assumes "\<forall>r \<in> set (table w). decision_fields is_set r"
  shows "\<forall>r \<in> set (table (run ParseCSR w ops)). decision_fields is_set r"
  using kept_decision_fields assms by (rule run_keeps)

theorem decision_fields_invariant_witness:
  "table empty_world = [] \<and>
   map (\<lambda>r. (ID r, Status r, ApprovedBy r, RejectedBy r, RejectReason r))
     (table (run sample_ParseCSR empty_world sample_session)) =
   [(''1'', ''approved'', Some ''alice'', None, None),
    (''2'', ''rejected'', None, Some ''bob'', Some ''duplicate request''),
    (''3'', ''pending'', None, None, None)] \<and>
   list_all (decision_fields is_set) (table (run sample_ParseCSR empty_world sample_session))"
proof -
  have e: "table empty_world = []" by (simp add: empty_world_def)
  then have "\<forall>r \<in> set (table empty_world). decision_fields is_set r" by simp
  from decision_fields_invariant [OF this, of sample_ParseCSR sample_session]
  have "list_all (decision_fields is_set) (table (run sample_ParseCSR empty_world sample_session))"
    by (simp add: list_all_iff)
  with e sample_session_statuses show ?thesis by blast
qed

lemma Create_success:
  assumes "CreateEnrollment ParseCSR w t1 t2 cn org email csrPEM = (Inr created, w')"
  shows "Status created = ''pending'' \<and> table w' = table w @ [created]"
  using assms
  by (auto simp: CreateEnrollment_def Create_eq Let_def split: sum.splits option.splits if_splits)


text \<open>
  Claim C10. Starting from records whose status is \<^verbatim>\<open>pending\<close>, \<^verbatim>\<open>approved\<close> or
  \<^verbatim>\<open>rejected\<close> (in particular from the empty table), every record after any sequence of
  operations has one of these three statuses. A successful \<open>CreateEnrollment\<close> returns
  and stores a \<^verbatim>\<open>pending\<close> record, a successful \<open>ApproveEnrollment\<close> leaves the record
  \<^verbatim>\<open>approved\<close>, a successful \<open>RejectEnrollment\<close> leaves it \<^verbatim>\<open>rejected\<close>, and \<open>SignCSR\<close>
  writes nothing to the table. The record type has no field for a certificate serial.
\<close>
theorem statuses_written:
  "((\<forall>r \<in> set (table w). Status r \<in> written_statuses) \<longrightarrow>
      (\<forall>r \<in> set (table (run ParseCSR w ops)). Status r \<in> written_statuses)) \<and>
   (CreateEnrollment ParseCSR w t1 t2 cn org email csrPEM = (Inr created, w1) \<longrightarrow>
      Status created = ''pending'' \<and> table w1 = table w @ [created]) \<and>
   (ApproveEnrollment w now eid approvedBy = (None, w2) \<longrightarrow>
      (\<exists>p. row_of w2 eid = Some p \<and> Status p = ''approved'')) \<and>
   (RejectEnrollment w now eid rejectedBy reason = (None, w3) \<longrightarrow>
      (\<exists>p. row_of w3 eid = Some p \<and> Status p = ''rejected'')) \<and>
   table (snd (SignCSR w csrPEM validityDays)) = table w"
proof (intro conjI impI)
  assume "\<forall>r \<in> set (table w). Status r \<in> written_statuses"
  with kept_statuses show "\<forall>r \<in> set (table (run ParseCSR w ops)). Status r \<in> written_statuses"
    by (rule run_keeps)
next
  assume "ApproveEnrollment w now eid approvedBy = (None, w2)"
  from Approve_success [OF this] show "\<exists>p. row_of w2 eid = Some p \<and> Status p = ''approved''"
    by auto
next
  assume "RejectEnrollment w now eid rejectedBy reason = (None, w3)"
  from Reject_success [OF this] show "\<exists>p. row_of w3 eid = Some p \<and> Status p = ''rejected''"
    by auto
qed (simp_all add: Create_success)

lemma sample_create:
  "fst (CreateEnrollment sample_ParseCSR pending_world 30 31 ''svc.internal'' ''Ops''
          ''ops@example.com'' ''CN=svc.internal'') =
   Inr \<lparr>ID = ''2'', CommonName = ''svc.internal'', Organization = ''Ops'',
         Email = ''ops@example.com'', CSR = ''CN=svc.internal'', Status = ''pending'',
         ApprovedBy = None, RejectedBy = None, RejectReason = None,
         CreatedAt = 30, UpdatedAt = 31\<rparr>"
  by (simp add: CreateEnrollment_def sample_ParseCSR_def Create_eq next_fault_def
        pending_world_def empty_world_def Info_def Let_def string_of_nat.simps)

theorem statuses_written_witness:
  "table empty_world = [] \<and>
   map (\<lambda>r. (ID r, Status r, ApprovedBy r, RejectedBy r, RejectReason r))
     (table (run sample_ParseCSR empty_world sample_session)) =
   [(''1'', ''approved'', Some ''alice'', None, None),
    (''2'', ''rejected'', None, Some ''bob'', Some ''duplicate request''),
    (''3'', ''pending'', None, None, None)] \<and>
   list_all (\<lambda>r. Status r \<in> written_statuses)
     (table (run sample_ParseCSR empty_world sample_session)) \<and>
   fst (ApproveEnrollment pending_world 20 ''1'' ''alice'') = None \<and>
   map_option Status (row_of (snd (ApproveEnrollment pending_world 20 ''1'' ''alice'')) ''1'') =
     Some ''approved'' \<and>
   fst (RejectEnrollment pending_world 20 ''1'' ''bob'' ''duplicate request'') = None \<and>
   map_option Status
     (row_of (snd (RejectEnrollment pending_world 20 ''1'' ''bob'' ''duplicate request'')) ''1'') =
     Some ''rejected'' \<and>
   map_sum id Status
     (fst (CreateEnrollment sample_ParseCSR pending_world 30 31 ''svc.internal''
        ''Ops'' ''ops@example.com'' ''CN=svc.internal'')) = Inr ''pending''"
proof -
  let ?wa = "snd (ApproveEnrollment pending_world 20 ''1'' ''alice'')"
  let ?wr = "snd (RejectEnrollment pending_world 20 ''1'' ''bob'' ''duplicate request'')"
  let ?c = "CreateEnrollment sample_ParseCSR pending_world 30 31 ''svc.internal''
        ''Ops'' ''ops@example.com'' ''CN=svc.internal''"
  let ?new = "\<lparr>ID = ''2'', CommonName = ''svc.internal'', Organization = ''Ops'',
          Email = ''ops@example.com'', CSR = ''CN=svc.internal'', Status = ''pending'',
          ApprovedBy = None, RejectedBy = None, RejectReason = None,
          CreatedAt = 30, UpdatedAt = 31\<rparr>"
  have e: "table empty_world = []" by (simp add: empty_world_def)
  have pend: "Status (sample_row ''1'' ''pending'') = ''pending''" by (simp add: sample_row_def)
  have a: "fst (ApproveEnrollment pending_world 20 ''1'' ''alice'') = None"
    using Approve_pending [OF pending_world_row pend pending_world_available] .
  have b: "fst (RejectEnrollment pending_world 20 ''1'' ''bob'' ''duplicate request'') = None"
    using Reject_pending [OF pending_world_row pend pending_world_available] .
  have a': "ApproveEnrollment pending_world 20 ''1'' ''alice'' = (None, ?wa)"
    using a by (simp add: prod_eq_iff)
  have b': "RejectEnrollment pending_world 20 ''1'' ''bob'' ''duplicate request'' = (None, ?wr)"
    using b by (simp add: prod_eq_iff)
  note t1 = statuses_written [where w = empty_world and ParseCSR = sample_ParseCSR
              and ops = sample_session]
  note t2 = statuses_written [where w = pending_world and ParseCSR = sample_ParseCSR
              and ?t1.0 = 30 and ?t2.0 = 31 and cn = "''svc.internal''" and org = "''Ops''"
              and email = "''ops@example.com''" and csrPEM = "''CN=svc.internal''"
              and created = ?new and ?w1.0 = "snd ?c"
              and now = 20 and eid = "''1''" and approvedBy = "''alice''" and ?w2.0 = ?wa
              and rejectedBy = "''bob''" and reason = "''duplicate request''" and ?w3.0 = ?wr]
  from t1 e
  have s: "list_all (\<lambda>r. Status r \<in> written_statuses)
             (table (run sample_ParseCSR empty_world sample_session))"
    by (simp add: list_all_iff)
  note m = sample_session_statuses
  from t2 a' have ra: "map_option Status (row_of ?wa ''1'') = Some ''approved''" by auto
  from t2 b' have rb: "map_option Status (row_of ?wr ''1'') = Some ''rejected''" by auto
  from sample_create have c': "?c = (Inr ?new, snd ?c)" by (simp add: prod_eq_iff)
  with t2 have "Status ?new = ''pending''" by blast
  then have rc: "map_sum id Status (fst ?c) = Inr ''pending''"
    by (simp add: sample_create)
  from e m s a ra b rb rc show ?thesis by blast
qed






section \<open>The hand-off to the CA\<close>




lemma alone_two_steps:
  "task_step (snd (task_step w (Waiting a))) (fst (task_step w (Waiting a))) =
     (Finished (fst (perform w a)), snd (perform w a))"
proof (cases a)
  case (Approve now eid approvedBy)
  show ?thesis
    unfolding Approve
    by (cases "Storage_GetByID w eid")
       (auto simp: ApproveEnrollment_def Let_def split: sum.splits option.splits prod.splits)
next
  case (Reject now eid rejectedBy reason)
  show ?thesis
    unfolding Reject
    by (cases "Storage_GetByID w eid")
       (auto simp: RejectEnrollment_def Let_def split: sum.splits option.splits prod.splits)
qed

lemma first_alone:
  "interleave w (Waiting a) tb (True # True # schedule) =
     interleave (snd (perform w a)) (Finished (fst (perform w a))) tb schedule"
  using alone_two_steps [of w a] by (simp add: case_prod_unfold)

lemma second_alone:
  "interleave w ta (Waiting b) (False # False # schedule) =
     interleave (snd (perform w b)) ta (Finished (fst (perform w b))) schedule"
  using alone_two_steps [of w b] by (simp add: case_prod_unfold)

lemma first_then_second_eq:
  "interleave w (Waiting a) (Waiting b) [True, True, False, False] =
     (snd (perform (snd (perform w a)) b), Finished (fst (perform w a)),
      Finished (fst (perform (snd (perform w a)) b)))"
  by (subst first_alone, subst second_alone) simp

lemma second_then_first_eq:
  "interleave w (Waiting a) (Waiting b) [False, False, True, True] =
     (snd (perform (snd (perform w b)) a), Finished (fst (perform (snd (perform w b)) a)),
      Finished (fst (perform w b)))"
  by (subst second_alone, subst first_alone) simp

lemma db_available_3:
  "db_available 3 w \<Longrightarrow> db_available 2 w \<and> list_all (\<lambda>f. f = None) (take 1 (tl (tl (faults w))))"
  by (cases "faults w"; cases "tl (faults w)"; cases "tl (tl (faults w))")
     (auto simp: db_available_def numeral_3_eq_3 numeral_2_eq_2)

lemma perform_faults:
  "fst (perform w a) = None \<Longrightarrow> faults (snd (perform w a)) = tl (tl (faults w))"
  by (cases a)
     (auto simp: Approve_eq Reject_eq Update_eq split: option.splits if_splits)

lemma perform_decides:
  assumes "row_of w eid = Some r" and "Status r = ''pending''" and "db_available 2 w"
    and "request_id a = eid"
  shows "fst (perform w a) = None"
    and "\<exists>r'. row_of (snd (perform w a)) eid = Some r' \<and> Status r' \<noteq> ''pending''"
proof -
  show s: "fst (perform w a) = None"
    using assms by (cases a) (auto intro: Approve_pending Reject_pending)
  then have p: "perform w a = (None, snd (perform w a))" by (simp add: prod_eq_iff)
  show "\<exists>r'. row_of (snd (perform w a)) eid = Some r' \<and> Status r' \<noteq> ''pending''"
  proof (cases a)
    case (Approve now eid' approvedBy)
    with assms(4) p Approve_success [of w now eid approvedBy "snd (perform w a)"]
    show ?thesis by auto
  next
    case (Reject now eid' rejectedBy reason)
    with assms(4) p Reject_success [of w now eid rejectedBy reason "snd (perform w a)"]
    show ?thesis by auto
  qed
qed

lemma perform_refused:
  assumes "row_of w eid = Some r" and "Status r \<noteq> ''pending''" and "next_fault w = None"
    and "request_id a = eid"
  shows "fst (perform w a) = Some (Errorf ''enrollment is not in pending status'' None)"
  using assms by (cases a) (auto simp: Approve_refused(3) Reject_refused(3))

lemma second_is_refused:
  assumes "row_of w eid = Some r" and "Status r = ''pending''" and "db_available 3 w"
    and "request_id a = eid" and "request_id b = eid"
  shows "fst (perform w a) = None"
    and "fst (perform (snd (perform w a)) b) =
           Some (Errorf ''enrollment is not in pending status'' None)"
proof -
  from db_available_3 [OF assms(3)]
  have av: "db_available 2 w" and third: "list_all (\<lambda>f. f = None) (take 1 (tl (tl (faults w))))"
    by simp_all
  from perform_decides [OF assms(1,2) av assms(4)]
  show ok: "fst (perform w a) = None" by simp
  from perform_decides [OF assms(1,2) av assms(4)]
  obtain r' where r': "row_of (snd (perform w a)) eid = Some r'" "Status r' \<noteq> ''pending''"
    by blast
  from perform_faults [OF ok] third have "next_fault (snd (perform w a)) = None"
    by (cases "tl (tl (faults w))") (simp_all add: next_fault_def)
  from perform_refused [OF r' this assms(5)]
  show "fst (perform (snd (perform w a)) b) =
          Some (Errorf ''enrollment is not in pending status'' None)" .
qed

lemma Update_overwrites:
  assumes "row_of w (ID e) = Some r0" and "db_available 1 w"
  shows "fst (Storage_Update w e) = None"
    and "row_of (snd (Storage_Update w e)) (ID e) =
           Some (r0\<lparr>Status := Status e, ApprovedBy := ApprovedBy e, RejectedBy := RejectedBy e,
                    RejectReason := RejectReason e, UpdatedAt := UpdatedAt e\<rparr>)"
proof -
  from assms(2) have nf: "next_fault w = None" by (simp only: db_available_1)
  then show "fst (Storage_Update w e) = None" by (simp add: Update_eq)
  from assms(1) have "ID r0 = ID e" by (rule row_of_ID)
  then have "update_row e r0 =
               r0\<lparr>Status := Status e, ApprovedBy := ApprovedBy e, RejectedBy := RejectedBy e,
                    RejectReason := RejectReason e, UpdatedAt := UpdatedAt e\<rparr>"
    by (simp add: update_row_def)
  with nf row_of_updated [OF assms(1) refl]
  show "row_of (snd (Storage_Update w e)) (ID e) =
           Some (r0\<lparr>Status := Status e, ApprovedBy := ApprovedBy e, RejectedBy := RejectedBy e,
                    RejectReason := RejectReason e, UpdatedAt := UpdatedAt e\<rparr>)"
    by (simp add: Update_eq row_of_def)
qed

section \<open>Two callers deciding one enrollment\<close>

text \<open>
  Claim C2 says that of two racing callers exactly one succeeds, because \<open>Update\<close> writes
  only if the status is still the one that was read. Here one caller approves and the
  other rejects the pending enrollment 1, and both reads come before both writes: both
  calls return success, the second write replaces the first, and the statements sent are
  two reads by id followed by two updates by id.
\<close>
theorem race_both_succeed:
  "row_of pending_world ''1'' = Some (sample_row ''1'' ''pending'') \<and>
   fst (snd (interleave pending_world (Waiting (Approve 20 ''1'' ''alice''))
               (Waiting (Reject 21 ''1'' ''bob'' ''duplicate request''))
               [True, False, True, False])) = Finished None \<and>
   snd (snd (interleave pending_world (Waiting (Approve 20 ''1'' ''alice''))
               (Waiting (Reject 21 ''1'' ''bob'' ''duplicate request''))
               [True, False, True, False])) = Finished None \<and>
   map (\<lambda>r. (Status r, ApprovedBy r, RejectedBy r, RejectReason r))
     (table (fst (interleave pending_world (Waiting (Approve 20 ''1'' ''alice''))
                    (Waiting (Reject 21 ''1'' ''bob'' ''duplicate request''))
                    [True, False, True, False]))) =
     [(''rejected'', None, Some ''bob'', Some ''duplicate request'')] \<and>
   queries (fst (interleave pending_world (Waiting (Approve 20 ''1'' ''alice''))
                   (Waiting (Reject 21 ''1'' ''bob'' ''duplicate request''))
                   [True, False, True, False])) =
     [SelectByID ''1'', SelectByID ''1'', UpdateByID ''1'', UpdateByID ''1'']"
  by (simp add: pending_world_def empty_world_def sample_row_def row_of_def
        Storage_GetByID_def Storage_Update_def db_call_def Info_def update_row_def)

text \<open>
  Claim C2, as the code has it. When the two calls run one after the other on a pending
  record (each of them an approval or a rejection of that id, the database executing
  the three statements), the first succeeds and the second fails with "enrollment is not
  in pending status", in either order. \<open>Storage_Update\<close> itself is unconditional: on a
  row found by id it succeeds and overwrites the five columns with the struct's values,
  whatever status the row holds.
\<close>
theorem one_after_the_other:
  "(row_of w eid = Some r \<and> Status r = ''pending'' \<and> db_available 3 w \<and>
    request_id a = eid \<and> request_id b = eid \<longrightarrow>
      fst (snd (interleave w (Waiting a) (Waiting b) [True, True, False, False])) =
        Finished None \<and>
      snd (snd (interleave w (Waiting a) (Waiting b) [True, True, False, False])) =
        Finished (Some (Errorf ''enrollment is not in pending status'' None)) \<and>
      fst (snd (interleave w (Waiting a) (Waiting b) [False, False, True, True])) =
        Finished (Some (Errorf ''enrollment is not in pending status'' None)) \<and>
      snd (snd (interleave w (Waiting a) (Waiting b) [False, False, True, True])) =
        Finished None) \<and>
   (row_of w (ID e) = Some r0 \<and> db_available 1 w \<longrightarrow>
      fst (Storage_Update w e) = None \<and>
      row_of (snd (Storage_Update w e)) (ID e) =
        Some (r0\<lparr>Status := Status e, ApprovedBy := ApprovedBy e, RejectedBy := RejectedBy e,
                 RejectReason := RejectReason e, UpdatedAt := UpdatedAt e\<rparr>))"
proof (intro conjI impI)
  assume h: "row_of w eid = Some r \<and> Status r = ''pending'' \<and> db_available 3 w \<and>
             request_id a = eid \<and> request_id b = eid"
  then have ab: "fst (perform w a) = None"
      "fst (perform (snd (perform w a)) b) =
         Some (Errorf ''enrollment is not in pending status'' None)"
    using second_is_refused [of w eid r a b] by blast+
  from h have ba: "fst (perform w b) = None"
      "fst (perform (snd (perform w b)) a) =
         Some (Errorf ''enrollment is not in pending status'' None)"
    using second_is_refused [of w eid r b a] by blast+
  show "fst (snd (interleave w (Waiting a) (Waiting b) [True, True, False, False])) =
          Finished None"
    by (simp only: first_then_second_eq fst_conv snd_conv ab)
  show "snd (snd (interleave w (Waiting a) (Waiting b) [True, True, False, False])) =
          Finished (Some (Errorf ''enrollment is not in pending status'' None))"
    by (simp only: first_then_second_eq fst_conv snd_conv ab)
  show "fst (snd (interleave w (Waiting a) (Waiting b) [False, False, True, True])) =
          Finished (Some (Errorf ''enrollment is not in pending status'' None))"
    by (simp only: second_then_first_eq fst_conv snd_conv ba)
  show "snd (snd (interleave w (Waiting a) (Waiting b) [False, False, True, True])) =
          Finished None"
    by (simp only: second_then_first_eq fst_conv snd_conv ba)
next
  assume h: "row_of w (ID e) = Some r0 \<and> db_available 1 w"
  then show "fst (Storage_Update w e) = None"
    using Update_overwrites(1) [of w e r0] by blast
  from h show "row_of (snd (Storage_Update w e)) (ID e) =
        Some (r0\<lparr>Status := Status e, ApprovedBy := ApprovedBy e, RejectedBy := RejectedBy e,
                 RejectReason := RejectReason e, UpdatedAt := UpdatedAt e\<rparr>)"
    using Update_overwrites(2) [of w e r0] by blast
qed

theorem one_after_the_other_witness:
  "row_of pending_world ''1'' = Some (sample_row ''1'' ''pending'') \<and>
   db_available 3 pending_world \<and>
   fst (snd (interleave pending_world (Waiting (Approve 20 ''1'' ''alice''))
               (Waiting (Reject 21 ''1'' ''bob'' ''duplicate request''))
               [True, True, False, False])) = Finished None \<and>
   snd (snd (interleave pending_world (Waiting (Approve 20 ''1'' ''alice''))
               (Waiting (Reject 21 ''1'' ''bob'' ''duplicate request''))
               [True, True, False, False])) =
     Finished (Some (Errorf ''enrollment is not in pending status'' None)) \<and>
   fst (snd (interleave pending_world (Waiting (Approve 20 ''1'' ''alice''))
               (Waiting (Reject 21 ''1'' ''bob'' ''duplicate request''))
               [False, False, True, True])) =
     Finished (Some (Errorf ''enrollment is not in pending status'' None)) \<and>
   snd (snd (interleave pending_world (Waiting (Approve 20 ''1'' ''alice''))
               (Waiting (Reject 21 ''1'' ''bob'' ''duplicate request''))
               [False, False, True, True])) = Finished None \<and>
   row_of approved_world ''1'' =
     Some ((sample_row ''1'' ''approved'')\<lparr>ApprovedBy := Some ''alice''\<rparr>) \<and>
   db_available 1 approved_world \<and>
   fst (Storage_Update approved_world
          ((sample_row ''1'' ''rejected'')\<lparr>RejectedBy := Some ''bob''\<rparr>)) = None \<and>
   map_option (\<lambda>r. (Status r, ApprovedBy r, RejectedBy r))
     (row_of (snd (Storage_Update approved_world
                     ((sample_row ''1'' ''rejected'')\<lparr>RejectedBy := Some ''bob''\<rparr>))) ''1'') =
     Some (''rejected'', None, Some ''bob'')"
proof -
  let ?a = "Approve 20 ''1'' ''alice''"
  let ?b = "Reject 21 ''1'' ''bob'' ''duplicate request''"
  let ?e = "(sample_row ''1'' ''rejected'')\<lparr>RejectedBy := Some ''bob''\<rparr>"
  let ?r0 = "(sample_row ''1'' ''approved'')\<lparr>ApprovedBy := Some ''alice''\<rparr>"
  have pend: "Status (sample_row ''1'' ''pending'') = ''pending''" by (simp add: sample_row_def)
  have ids: "request_id ?a = ''1''" "request_id ?b = ''1''" by simp_all
  have ide: "ID ?e = ''1''" by (simp add: sample_row_def)
  note t1 = one_after_the_other
              [where w = pending_world and eid = "''1''" and r = "sample_row ''1'' ''pending''"
                 and a = ?a and b = ?b]
  note t2 = one_after_the_other [where w = approved_world and e = ?e and ?r0.0 = ?r0]
  from t1 pending_world_row pend pending_world_available [of 3] ids
  have seq:
    "fst (snd (interleave pending_world (Waiting ?a) (Waiting ?b) [True, True, False, False])) =
       Finished None"
    "snd (snd (interleave pending_world (Waiting ?a) (Waiting ?b) [True, True, False, False])) =
       Finished (Some (Errorf ''enrollment is not in pending status'' None))"
    "fst (snd (interleave pending_world (Waiting ?a) (Waiting ?b) [False, False, True, True])) =
       Finished (Some (Errorf ''enrollment is not in pending status'' None))"
    "snd (snd (interleave pending_world (Waiting ?a) (Waiting ?b) [False, False, True, True])) =
       Finished None"
    by blast+
  from t2 approved_world_row approved_world_available [of 1] ide
  have upd: "fst (Storage_Update approved_world ?e) = None"
    "row_of (snd (Storage_Update approved_world ?e)) ''1'' =
       Some (?r0\<lparr>Status := Status ?e, ApprovedBy := ApprovedBy ?e, RejectedBy := RejectedBy ?e,
                  RejectReason := RejectReason ?e, UpdatedAt := UpdatedAt ?e\<rparr>)"
    by simp_all
  from upd(2)
  have "map_option (\<lambda>r. (Status r, ApprovedBy r, RejectedBy r))
          (row_of (snd (Storage_Update approved_world ?e)) ''1'') =
        Some (''rejected'', None, Some ''bob'')"
    by (simp add: sample_row_def)
  with seq upd(1) pending_world_row pending_world_available [of 3]
    approved_world_row approved_world_available [of 1]
  show ?thesis by blast
qed

end
